theory Spec2Isabelle
  imports Main "HOL-Library.Word"
begin

section \<open>The Express adapter of Remix: \<^verbatim>\<open>packages/remix-express/server.ts\<close>\<close>

text \<open>
  The adapter turns an Express request into a Fetch-style request, hands it to the
  Remix request handler and writes the handler's response onto the Express response.
  The development below embeds its four functions, \<^verbatim>\<open>createRemixHeaders\<close>,
  \<^verbatim>\<open>createRemixRequest\<close>, \<^verbatim>\<open>sendRemixResponse\<close> and
  \<^verbatim>\<open>createRequestHandler\<close>, and proves what they do.
\<close>

subsection \<open>JavaScript values the adapter touches\<close>

text \<open>
  A plain JavaScript object with string keys is a list of (key, value) pairs in key
  order; a key occurs once. \<^verbatim>\<open>Object.keys\<close> lists the keys, reading a property
  takes the first pair with that key, and assigning \<^verbatim>\<open>o[key] = v\<close> replaces the
  value of an existing key in place or appends a new pair. Keys are ordinary property
  names: the accessor name \<^verbatim>\<open>__proto__\<close> is outside this model.
\<close>

type_synonym 'v js_object = "(string \<times> 'v) list"

definition Object_keys :: "'v js_object \<Rightarrow> string list" where
  "Object_keys obj = map fst obj"

fun obj_set :: "'v js_object \<Rightarrow> string \<Rightarrow> 'v \<Rightarrow> 'v js_object" where
  "obj_set [] key v = [(key, v)]"
| "obj_set ((k, w) # rest) key v =
     (if k = key then (k, v) # rest else (k, w) # obj_set rest key v)"

text \<open>
  \<^verbatim>\<open>Array.prototype.join\<close> on an array of strings: the elements in order, the
  separator between neighbours, the empty string for the empty array.
\<close>

fun join :: "string \<Rightarrow> string list \<Rightarrow> string" where
  "join sep [] = []"
| "join sep [x] = x"
| "join sep (x # y # ys) = x @ sep @ join sep (y # ys)"

text \<open>
  A value of \<^verbatim>\<open>express.Request["headers"]\<close> (Node's \<^verbatim>\<open>IncomingHttpHeaders\<close>):
  \<^verbatim>\<open>string | string[] | undefined\<close>. Reading a key the object does not have
  gives \<^verbatim>\<open>undefined\<close> as well.
\<close>

datatype header_value = HString string | HArray "string list" | HUndefined

definition property :: "header_value js_object \<Rightarrow> string \<Rightarrow> header_value" where
  "property obj key = (case map_of obj key of None \<Rightarrow> HUndefined | Some v \<Rightarrow> v)"

text \<open>
  Modelled from the spec: the class \<^verbatim>\<open>Headers\<close> of \<^verbatim>\<open>@remix-run/node\<close>, the
  standardized header container. It holds the (name, value) entries it was built from;
  \<^verbatim>\<open>entries()\<close> iterates them.
\<close>

datatype headers = Headers (entries: "string js_object")

subsection \<open>Header translation\<close>

text \<open>
  \<^verbatim>\<open>createRemixHeaders\<close>, lines 69 to 85: a \<^verbatim>\<open>reduce\<close> over the keys of the
  native header object that starts from the empty object \<^verbatim>\<open>{}\<close>.
\<close>

definition createRemixHeaders :: "header_value js_object \<Rightarrow> headers" where
  "createRemixHeaders requestHeaders =
     Headers
       (foldl
          (\<lambda>memo key.
             (case property requestHeaders key of
                HString s \<Rightarrow> obj_set memo key s
              | HArray vs \<Rightarrow> obj_set memo key (join '','' vs)
              | HUndefined \<Rightarrow> memo))
          []
          (Object_keys requestHeaders))"

subsection \<open>Failures, streams, requests and responses\<close>

text \<open>
  A value thrown in JavaScript: the \<^verbatim>\<open>TypeError\<close> the language itself raises (a
  property read on \<^verbatim>\<open>null\<close>, a call of a non-function), or any value \<open>'x\<close> an
  external collaborator throws. A call that may throw returns a sum, \<open>Inl\<close> the thrown
  value; a call that also acts on a state \<open>'s\<close> returns the state it leaves behind,
  whether it throws or not.
\<close>

datatype 'x js_error = TypeError | External 'x

type_synonym ('s, 'x, 'a) effect = "'s \<Rightarrow> ('x js_error + 'a) \<times> 's"

type_synonym byte = "8 word"

text \<open>
  A readable byte stream is what it yields: a source with its chunks, or a
  \<^verbatim>\<open>PassThrough\<close> of some high-water mark into which another stream is piped and
  which hands the chunks on unchanged.
\<close>

datatype readable = Chunks "byte list list" | PassThrough nat readable

fun chunks_of :: "readable \<Rightarrow> byte list list" where
  "chunks_of (Chunks cs) = cs"
| "chunks_of (PassThrough highWaterMark src) = chunks_of src"

definition bytes_of :: "readable \<Rightarrow> byte list" where
  "bytes_of rd = concat (chunks_of rd)"

text \<open>
  The fields of \<^verbatim>\<open>express.Request\<close> that the adapter reads; the request is itself
  the readable stream of its payload.
\<close>

record native_request =
  req_protocol :: string
  req_hostname :: string
  req_url :: string
  req_method :: string
  req_headers :: "header_value js_object"
  req_payload :: readable

text \<open>
  Modelled from the spec: the classes \<^verbatim>\<open>Request\<close> and \<^verbatim>\<open>Response\<close> of
  \<^verbatim>\<open>@remix-run/node\<close>. A standardized request is a value with a method, an absolute
  URL, a header container and an optional body stream, built from a URL and a
  \<^verbatim>\<open>RequestInit\<close>. A standardized response has a numeric status, a header container
  and a body, which is a buffer, a readable stream, or \<^verbatim>\<open>null\<close>.
\<close>

record RequestInit =
  init_method :: string
  init_headers :: headers
  init_body :: "readable option"

record request =
  request_url :: string
  request_method :: string
  request_headers :: headers
  request_body :: "readable option"

definition Request :: "string \<Rightarrow> RequestInit \<Rightarrow> request" where
  "Request url init =
     \<lparr>request_url = url, request_method = init_method init,
      request_headers = init_headers init, request_body = init_body init\<rparr>"

datatype body = BufferBody "byte list" | StreamBody readable | NullBody

record response =
  response_status :: nat
  response_headers :: headers
  response_body :: body

subsection \<open>Request translation\<close>

text \<open>
  \<^verbatim>\<open>createRemixRequest\<close>, lines 87 to 101. The parameter \<open>URL\<close> is Node's URL
  primitive: \<open>URL input base\<close> is \<^verbatim>\<open>new URL(input, base).toString()\<close>, or the
  error the constructor throws.
\<close>

definition createRemixRequest ::
  "(string \<Rightarrow> string \<Rightarrow> 'x js_error + string) \<Rightarrow> native_request \<Rightarrow> 'x js_error + request" where
  "createRemixRequest URL req =
     (let origin = req_protocol req @ ''://'' @ req_hostname req in
      case URL (req_url req) origin of
        Inl error \<Rightarrow> Inl error
      | Inr url \<Rightarrow>
          (let init = \<lparr>init_method = req_method req,
                      init_headers = createRemixHeaders (req_headers req),
                      init_body = None\<rparr>;
               init' = (if req_method req \<noteq> ''GET'' \<and> req_method req \<noteq> ''HEAD''
                        then init\<lparr>init_body := Some (PassThrough 16384 (req_payload req))\<rparr>
                        else init)
           in Inr (Request url init')))"

subsection \<open>Response emission\<close>

text \<open>
  The native response is an object with methods. The adapter calls
  \<^verbatim>\<open>res.status\<close>, \<^verbatim>\<open>res.set\<close> and \<^verbatim>\<open>res.end\<close>, and pipes a body stream into it;
  each acts on the state \<open>'s\<close> of the native response and may throw.
\<close>

record ('s, 'x) express_Response =
  res_status :: "nat \<Rightarrow> ('s, 'x, unit) effect"
  res_set :: "string \<Rightarrow> string \<Rightarrow> ('s, 'x, unit) effect"
  res_end :: "byte list \<Rightarrow> ('s, 'x, unit) effect"
  res_pipe :: "readable \<Rightarrow> ('s, 'x, unit) effect"

text \<open>The loop of lines 106 to 108: it stops at the first call that throws.\<close>

fun set_headers ::
  "('s, 'x) express_Response \<Rightarrow> string js_object \<Rightarrow> ('s, 'x, unit) effect" where
  "set_headers res [] s = (Inr (), s)"
| "set_headers res ((key, v) # rest) s =
     (case res_set res key v s of
        (Inl error, s') \<Rightarrow> (Inl error, s')
      | (Inr _, s') \<Rightarrow> set_headers res rest s')"

text \<open>
  \<^verbatim>\<open>sendRemixResponse\<close>, lines 103 to 115. Where the body is no buffer the code reads
  \<^verbatim>\<open>response.body.pipe\<close>, which throws a \<^verbatim>\<open>TypeError\<close> on \<^verbatim>\<open>null\<close>.
\<close>

definition sendRemixResponse ::
  "('s, 'x) express_Response \<Rightarrow> response \<Rightarrow> ('s, 'x, unit) effect" where
  "sendRemixResponse res response s =
     (case res_status res (response_status response) s of
        (Inl error, s1) \<Rightarrow> (Inl error, s1)
      | (Inr _, s1) \<Rightarrow>
          (case set_headers res (entries (response_headers response)) s1 of
             (Inl error, s2) \<Rightarrow> (Inl error, s2)
           | (Inr _, s2) \<Rightarrow>
               (case response_body response of
                  BufferBody buffer \<Rightarrow> res_end res buffer s2
                | StreamBody stream \<Rightarrow> res_pipe res stream s2
                | NullBody \<Rightarrow> (Inl TypeError, s2))))"

text \<open>
  Modelled from the spec: the response object of Express, which the adapter only
  writes to. It has a status code, a header table in which setting a name again
  overwrites its value, the body bytes written so far and whether it is closed.
  Ending it writes a buffer and closes it. Piping a stream into it only registers the
  response as the destination and returns at once: nothing is written by then, the
  chunks arrive in later turns of the event loop, and the response is closed when, and
  if, the stream ends. None of the four throws.
\<close>

record native_response =
  statusCode :: nat
  header_table :: "string js_object"
  written :: "byte list"
  finished :: bool

definition express_res :: "(native_response, 'x) express_Response" where
  "express_res =
     \<lparr>res_status = (\<lambda>code s. (Inr (), s\<lparr>statusCode := code\<rparr>)),
      res_set = (\<lambda>field v s. (Inr (), s\<lparr>header_table := obj_set (header_table s) field v\<rparr>)),
      res_end = (\<lambda>chunk s. (Inr (), s\<lparr>written := written s @ chunk, finished := True\<rparr>)),
      res_pipe = (\<lambda>stream s. (Inr (), s))\<rparr>"

definition fresh_response :: native_response where
  "fresh_response = \<lparr>statusCode = 200, header_table = [], written = [], finished = False\<rparr>"

subsection \<open>The handler factory\<close>

text \<open>
  The framework handler returns a promise, or throws before it returns one. A promise is
  fulfilled, rejected, or never settles; \<^verbatim>\<open>await\<close> on it completes with the value,
  completes abruptly with the rejection, or suspends the caller for good.
\<close>

datatype ('x, 'a) promise = Fulfilled 'a | Rejected "'x js_error" | Pending

datatype ('x, 'a) completion = Normal 'a | Abrupt "'x js_error" | Suspended

fun await :: "('x, 'a) promise \<Rightarrow> ('x, 'a) completion" where
  "await (Fulfilled v) = Normal v"
| "await (Rejected error) = Abrupt error"
| "await Pending = Suspended"

type_synonym ('x, 'c) handleRequest =
  "request \<Rightarrow> 'c option \<Rightarrow> 'x js_error + ('x, response) promise"

text \<open>
  The option \<^verbatim>\<open>getLoadContext\<close> is whatever value the caller supplied:
  \<^verbatim>\<open>undefined\<close> when it is left out, a function of the native request and response,
  or any other value. \<^verbatim>\<open>typeof\<close> tells them apart, and calling a value that is no
  function throws a \<^verbatim>\<open>TypeError\<close>. A load context is \<open>'c option\<close>, \<open>None\<close> for
  \<^verbatim>\<open>undefined\<close>.
\<close>

datatype ('s, 'x, 'c) js_value =
    JUndefined
  | JNull
  | JBoolean bool
  | JNumber int
  | JString string
  | JObject
  | JFunction "native_request \<Rightarrow> ('s, 'x, 'c option) effect"

fun typeof :: "('s, 'x, 'c) js_value \<Rightarrow> string" where
  "typeof JUndefined = ''undefined''"
| "typeof JNull = ''object''"
| "typeof (JBoolean b) = ''boolean''"
| "typeof (JNumber n) = ''number''"
| "typeof (JString s) = ''string''"
| "typeof JObject = ''object''"
| "typeof (JFunction f) = ''function''"

fun js_call :: "('s, 'x, 'c) js_value \<Rightarrow> native_request \<Rightarrow> ('s, 'x, 'c option) effect" where
  "js_call (JFunction f) req s = f req s"
| "js_call v req s = (Inl TypeError, s)"

text \<open>
  What one invocation of the middleware does that its caller can see: the framework
  handler called with a request and a load context, \<^verbatim>\<open>sendRemixResponse\<close> run to its
  end, \<^verbatim>\<open>next\<close> called with an error.
\<close>

datatype ('x, 'c) event =
    Handler_called request "'c option"
  | Response_sent
  | Next_called "'x js_error"

text \<open>
  The load context of lines 53 to 56: \<^verbatim>\<open>getLoadContext(req, res)\<close> when the option
  is a function, \<^verbatim>\<open>undefined\<close> otherwise.
\<close>

definition loadContext_of ::
  "('s, 'x, 'c) js_value \<Rightarrow> native_request \<Rightarrow> ('s, 'x, 'c option) effect" where
  "loadContext_of getLoadContext req s =
     (if typeof getLoadContext = ''function''
      then js_call getLoadContext req s
      else (Inr None, s))"

text \<open>
  The \<^verbatim>\<open>try\<close> block, lines 52 to 60: how it completes, the state of the native
  response it leaves, and its events.
\<close>

definition try_block ::
  "(string \<Rightarrow> string \<Rightarrow> 'x js_error + string) \<Rightarrow> ('s, 'x, 'c) js_value \<Rightarrow>
   ('x, 'c) handleRequest \<Rightarrow> native_request \<Rightarrow> ('s, 'x) express_Response \<Rightarrow> 's \<Rightarrow>
   ('x, unit) completion \<times> 's \<times> ('x, 'c) event list" where
  "try_block URL getLoadContext handleRequest req res s =
     (case createRemixRequest URL req of
        Inl error \<Rightarrow> (Abrupt error, s, [])
      | Inr request \<Rightarrow>
          (case loadContext_of getLoadContext req s of
             (Inl error, s1) \<Rightarrow> (Abrupt error, s1, [])
           | (Inr loadContext, s1) \<Rightarrow>
               (case handleRequest request loadContext of
                  Inl error \<Rightarrow> (Abrupt error, s1, [Handler_called request loadContext])
                | Inr p \<Rightarrow>
                    (case await p of
                       Abrupt error \<Rightarrow>
                         (Abrupt error, s1, [Handler_called request loadContext])
                     | Suspended \<Rightarrow> (Suspended, s1, [Handler_called request loadContext])
                     | Normal response \<Rightarrow>
                         (case sendRemixResponse res response s1 of
                            (Inl error, s2) \<Rightarrow>
                              (Abrupt error, s2, [Handler_called request loadContext])
                          | (Inr _, s2) \<Rightarrow>
                              (Normal (), s2,
                               [Handler_called request loadContext, Response_sent]))))))"

text \<open>
  The \<^verbatim>\<open>catch\<close> clause, lines 61 to 65: an abrupt completion of the block becomes a
  call \<^verbatim>\<open>next(error)\<close>. The continuation \<open>next\<close> is the server's: it acts on the
  native response (Express runs its error handlers) and returns.
\<close>

definition try_catch ::
  "('x js_error \<Rightarrow> 's \<Rightarrow> 's) \<Rightarrow> ('x, unit) completion \<times> 's \<times> ('x, 'c) event list \<Rightarrow>
   ('x, unit) completion \<times> 's \<times> ('x, 'c) event list" where
  "try_catch next r =
     (case r of
        (Abrupt error, s, evs) \<Rightarrow> (Normal (), next error s, evs @ [Next_called error])
      | (Normal u, s, evs) \<Rightarrow> (Normal u, s, evs)
      | (Suspended, s, evs) \<Rightarrow> (Suspended, s, evs))"

text \<open>
  The promise of an \<^verbatim>\<open>async\<close> function: resolved when the body completes, rejected
  with what the body throws, pending while the body is suspended.
\<close>

datatype 'x settlement = Resolved | Rejected_with "'x js_error" | Still_pending

fun settle :: "('x, unit) completion \<Rightarrow> 'x settlement" where
  "settle (Normal u) = Resolved"
| "settle (Abrupt error) = Rejected_with error"
| "settle Suspended = Still_pending"

record ('s, 'x, 'c) invocation =
  settled :: "'x settlement"
  native :: 's
  events :: "('x, 'c) event list"

text \<open>
  The middleware, lines 46 to 66: the \<^verbatim>\<open>async\<close> function of the native request,
  the native response (its methods and its state) and \<open>next\<close>, with the URL primitive,
  the \<^verbatim>\<open>getLoadContext\<close> option and the bound handler it closes over.
\<close>

definition middleware ::
  "(string \<Rightarrow> string \<Rightarrow> 'x js_error + string) \<Rightarrow> ('s, 'x, 'c) js_value \<Rightarrow>
   ('x, 'c) handleRequest \<Rightarrow> native_request \<Rightarrow> ('s, 'x) express_Response \<Rightarrow> 's \<Rightarrow>
   ('x js_error \<Rightarrow> 's \<Rightarrow> 's) \<Rightarrow> ('s, 'x, 'c) invocation" where
  "middleware URL getLoadContext handleRequest req res s next =
     (case try_catch next (try_block URL getLoadContext handleRequest req res s) of
        (c, s', evs) \<Rightarrow> \<lparr>settled = settle c, native = s', events = evs\<rparr>)"

text \<open>
  \<^verbatim>\<open>createRequestHandler\<close>, lines 33 to 67. The options are a record;
  \<^verbatim>\<open>mode\<close> defaults to \<^verbatim>\<open>process.env.NODE_ENV\<close> and \<^verbatim>\<open>serverTiming\<close> to
  \<^verbatim>\<open>!!process.env.REMIX_SERVER_TIMING\<close> when they are left out.
  \<open>createRemixRequestHandler\<close> is the framework's factory, which binds the handler once;
  the result is the middleware.
\<close>

record ('b, 's, 'x, 'c) options =
  build :: 'b
  getLoadContext :: "('s, 'x, 'c) js_value"
  mode :: "string option"
  serverTiming :: "bool option"

record process_env =
  NODE_ENV :: "string option"
  REMIX_SERVER_TIMING :: "string option"

definition mode_of :: "process_env \<Rightarrow> ('b, 's, 'x, 'c) options \<Rightarrow> string option" where
  "mode_of env opts = (case mode opts of None \<Rightarrow> NODE_ENV env | Some m \<Rightarrow> Some m)"

definition serverTiming_of :: "process_env \<Rightarrow> ('b, 's, 'x, 'c) options \<Rightarrow> bool" where
  "serverTiming_of env opts =
     (case serverTiming opts of
        None \<Rightarrow> (case REMIX_SERVER_TIMING env of None \<Rightarrow> False | Some v \<Rightarrow> v \<noteq> [])
      | Some b \<Rightarrow> b)"

definition createRequestHandler ::
  "('b \<Rightarrow> string option \<Rightarrow> bool \<Rightarrow> ('x, 'c) handleRequest) \<Rightarrow> process_env \<Rightarrow>
   (string \<Rightarrow> string \<Rightarrow> 'x js_error + string) \<Rightarrow> ('b, 's, 'x, 'c) options \<Rightarrow>
   native_request \<Rightarrow> ('s, 'x) express_Response \<Rightarrow> 's \<Rightarrow> ('x js_error \<Rightarrow> 's \<Rightarrow> 's) \<Rightarrow>
   ('s, 'x, 'c) invocation" where
  "createRequestHandler createRemixRequestHandler env URL opts =
     (let handleRequest =
            createRemixRequestHandler (build opts) (mode_of env opts) (serverTiming_of env opts)
      in middleware URL (getLoadContext opts) handleRequest)"

subsection \<open>Observations on an invocation\<close>

text \<open>
  The errors handed to \<^verbatim>\<open>next\<close>, in order, and the calls of the framework
  handler.
\<close>

fun next_calls :: "('x, 'c) event list \<Rightarrow> 'x js_error list" where
  "next_calls [] = []"
| "next_calls (Next_called error # evs) = error # next_calls evs"
| "next_calls (ev # evs) = next_calls evs"

fun handler_calls :: "('x, 'c) event list \<Rightarrow> (request \<times> 'c option) list" where
  "handler_calls [] = []"
| "handler_calls (Handler_called request loadContext # evs) =
     (request, loadContext) # handler_calls evs"
| "handler_calls (ev # evs) = handler_calls evs"




subsection \<open>Instances for the examples\<close>

text \<open>
  An instance of the URL primitive: for a base that is an origin and an input that is
  an absolute path with nothing to normalise or to escape, the URL Standard gives the
  origin followed by the input.
\<close>

definition resolve_path :: "string \<Rightarrow> string \<Rightarrow> nat js_error + string" where
  "resolve_path input base = Inr (base @ input)"

definition malformed_url :: "string \<Rightarrow> string \<Rightarrow> nat js_error + string" where
  "malformed_url input base = Inl (External 1)"

definition get_request :: native_request where
  "get_request =
     \<lparr>req_protocol = ''https'', req_hostname = ''example.com'', req_url = ''/foo?x=1'',
      req_method = ''GET'', req_headers = [(''host'', HString ''example.com'')],
      req_payload = Chunks [[104, 105]]\<rparr>"

definition post_request :: native_request where
  "post_request =
     \<lparr>req_protocol = ''http'', req_hostname = ''localhost'', req_url = ''/items'',
      req_method = ''POST'',
      req_headers = [(''host'', HString ''localhost''), (''x-foo'', HArray [''a'', ''b'']),
                     (''x-gone'', HUndefined)],
      req_payload = Chunks [[1, 2], [3]]\<rparr>"

definition not_found :: response where
  "not_found = \<lparr>response_status = 404, response_headers = Headers [], response_body = BufferBody []\<rparr>"

definition no_body :: response where
  "no_body =
     \<lparr>response_status = 204, response_headers = Headers [(''x-a'', ''1'')],
      response_body = NullBody\<rparr>"

text \<open>Framework factories whose handler fulfils, throws, rejects, or never settles.\<close>

definition serves :: "response \<Rightarrow> unit \<Rightarrow> string option \<Rightarrow> bool \<Rightarrow> (nat, nat) handleRequest" where
  "serves response b m t request loadContext = Inr (Fulfilled response)"

definition throws :: "unit \<Rightarrow> string option \<Rightarrow> bool \<Rightarrow> (nat, nat) handleRequest" where
  "throws b m t request loadContext = Inl (External 7)"

definition rejects :: "unit \<Rightarrow> string option \<Rightarrow> bool \<Rightarrow> (nat, nat) handleRequest" where
  "rejects b m t request loadContext = Inr (Rejected (External 8))"


definition no_env :: process_env where
  "no_env = \<lparr>NODE_ENV = None, REMIX_SERVER_TIMING = None\<rparr>"

definition with_context :: "(native_response, nat, nat) js_value \<Rightarrow> (unit, native_response, nat, nat) options" where
  "with_context v = \<lparr>build = (), getLoadContext = v, mode = None, serverTiming = None\<rparr>"

definition session_context :: "native_request \<Rightarrow> (native_response, nat, nat option) effect" where
  "session_context req s = (Inr (Some 42), s)"

definition failing_context :: "native_request \<Rightarrow> (native_response, nat, nat option) effect" where
  "failing_context req s = (Inl (External 5), s)"

definition greeting :: response where
  "greeting =
     \<lparr>response_status = 200,
      response_headers = Headers [(''x-a'', ''1''), (''x-b'', ''2''), (''x-a'', ''3'')],
      response_body = BufferBody [104, 105]\<rparr>"

text \<open>
  An Express response that, as Node's does, refuses a status or a header once it is
  closed.
\<close>

definition closing_res :: "(native_response, nat) express_Response" where
  "closing_res =
     \<lparr>res_status = (\<lambda>code s.
        if finished s then (Inl (External 2), s) else (Inr (), s\<lparr>statusCode := code\<rparr>)),
      res_set = (\<lambda>field v s.
        if finished s then (Inl (External 2), s)
        else (Inr (), s\<lparr>header_table := obj_set (header_table s) field v\<rparr>)),
      res_end = (\<lambda>chunk s. (Inr (), s\<lparr>written := written s @ chunk, finished := True\<rparr>)),
      res_pipe = (\<lambda>stream s. (Inr (), s))\<rparr>"


text \<open>A continuation that answers with an error page.\<close>

definition error_page :: "nat js_error \<Rightarrow> native_response \<Rightarrow> native_response" where
  "error_page error s = s\<lparr>statusCode := 500, finished := True\<rparr>"

text \<open>A continuation that leaves the native response as it finds it.\<close>

definition server_next :: "nat js_error \<Rightarrow> native_response \<Rightarrow> native_response" where
  "server_next error s = s"

subsection \<open>Facts about objects and header translation\<close>

lemma map_of_obj_set: "map_of (obj_set obj key v) = (map_of obj)(key \<mapsto> v)"
  by (induction obj key v rule: obj_set.induct) auto

text \<open>
  The \<^verbatim>\<open>reduce\<close> over any list of keys, from any accumulator: a key of the list
  ends with its string or its joined array, any other key keeps what the accumulator had.
\<close>

lemma lookup_reduce:
  "map_of (foldl (\<lambda>memo key.
             (case property hs key of
                HString s \<Rightarrow> obj_set memo key s
              | HArray vs \<Rightarrow> obj_set memo key (join '','' vs)
              | HUndefined \<Rightarrow> memo)) memo ks) k =
   (if k \<in> set ks
    then (case property hs k of
            HString s \<Rightarrow> Some s
          | HArray vs \<Rightarrow> Some (join '','' vs)
          | HUndefined \<Rightarrow> map_of memo k)
    else map_of memo k)"
  by (induction ks arbitrary: memo) (auto simp: map_of_obj_set split: header_value.splits)

lemma lookup_createRemixHeaders:
  "map_of (entries (createRemixHeaders hs)) k =
   (case property hs k of
      HString s \<Rightarrow> Some s
    | HArray vs \<Rightarrow> Some (join '','' vs)
    | HUndefined \<Rightarrow> None)"
proof (cases "map_of hs k")
  case None
  then have "k \<notin> set (Object_keys hs)"
    by (simp add: Object_keys_def map_of_eq_None_iff)
  then have "map_of (entries (createRemixHeaders hs)) k = None"
    by (simp add: createRemixHeaders_def lookup_reduce)
  with None show ?thesis
    by (simp add: property_def)
next
  case (Some v)
  then have "k \<in> set (Object_keys hs)"
    by (auto simp: Object_keys_def dest: map_of_SomeD intro: image_eqI [where x = "(k, v)"])
  then show ?thesis
    by (simp add: createRemixHeaders_def lookup_reduce split: header_value.splits)
qed

subsection \<open>Facts about the Express response and the middleware\<close>

lemma express_res_simps:
  "res_status express_res code s = (Inr (), s\<lparr>statusCode := code\<rparr>)"
  "res_set express_res field v s =
     (Inr (), s\<lparr>header_table := obj_set (header_table s) field v\<rparr>)"
  "res_end express_res chunk s = (Inr (), s\<lparr>written := written s @ chunk, finished := True\<rparr>)"
  "res_pipe express_res stream s = (Inr (), s)"
  by (simp_all add: express_res_def)

lemma set_headers_express:
  "set_headers express_res es s =
     (Inr (), s\<lparr>header_table := fold (\<lambda>(k, v) t. obj_set t k v) es (header_table s)\<rparr>)"
  by (induction es arbitrary: s) (auto simp: express_res_simps)

lemma map_of_fold_obj_set:
  "map_of (fold (\<lambda>(k, v) t. obj_set t k v) es t) key =
     (case map_of (rev es) key of None \<Rightarrow> map_of t key | Some v \<Rightarrow> Some v)"
  by (induction es arbitrary: t) (auto simp: map_of_obj_set map_add_def split: option.splits)




text \<open>The definitions a run of the middleware on the example instances unfolds.\<close>

lemmas run_defs = createRequestHandler_def middleware_def try_catch_def try_block_def
  with_context_def createRemixRequest_def resolve_path_def loadContext_of_def Let_def

section \<open>Header translation\<close>

text \<open>
  Claim C5. Where the native header object has, under some name, an ordered sequence of
  N strings, the translated container has under that name those N strings joined with a
  comma into one string, in their order. For \<^verbatim>\<open>{ "x-foo": ["a","b"] }\<close> that is
  \<^verbatim>\<open>x-foo: a,b\<close>.
\<close>

theorem array_header_comma_joined:
  "map_of requestHeaders key = Some (HArray vs) \<Longrightarrow>
   map_of (entries (createRemixHeaders requestHeaders)) key = Some (join '','' vs)"
  by (simp add: lookup_createRemixHeaders property_def)

theorem array_header_comma_joined_witness:
  "map_of (entries (createRemixHeaders (req_headers post_request))) ''x-foo'' = Some ''a,b''"
  using array_header_comma_joined [of "req_headers post_request" "''x-foo''" "[''a'', ''b'']"]
  by (simp add: post_request_def)

text \<open>
  Claim C6. Where every value of the native header object is a single string, the
  translation is the identity on names and values: the translated container has a name
  with a value exactly when the native object has that name with that string.
\<close>

theorem string_headers_unchanged:
  assumes "\<forall>(name, v) \<in> set requestHeaders. \<exists>s. v = HString s"
  shows "(map_of (entries (createRemixHeaders requestHeaders)) key = Some s) =
         (map_of requestHeaders key = Some (HString s))"
proof (cases "map_of requestHeaders key")
  case None
  then show ?thesis
    by (simp add: lookup_createRemixHeaders property_def)
next
  case (Some v)
  then have "(key, v) \<in> set requestHeaders"
    by (rule map_of_SomeD)
  with assms obtain s' where "v = HString s'"
    by auto
  with Some show ?thesis
    by (simp add: lookup_createRemixHeaders property_def)
qed

theorem string_headers_unchanged_witness:
  "map_of (entries (createRemixHeaders (req_headers get_request))) ''host'' = Some ''example.com''
   \<and> createRemixHeaders (req_headers get_request) = Headers [(''host'', ''example.com'')]"
  using string_headers_unchanged [of "req_headers get_request" "''host''" "''example.com''"]
  by (simp add: get_request_def createRemixHeaders_def Object_keys_def property_def)

text \<open>
  Claim C8. Header translation has no error condition: for every native header object it
  yields a container. An entry whose value is absent (\<^verbatim>\<open>undefined\<close>), the one value
  of the header type that is neither a string nor an array of strings, is dropped, and
  nothing else is: the names of the container are the names with a string or an array.
\<close>

theorem header_translation_drops_undefined:
  "(\<exists>es. createRemixHeaders requestHeaders = Headers es) \<and>
   (\<forall>key. property requestHeaders key = HUndefined \<longrightarrow>
      map_of (entries (createRemixHeaders requestHeaders)) key = None) \<and>
   dom (map_of (entries (createRemixHeaders requestHeaders))) =
     {key. property requestHeaders key \<noteq> HUndefined}"
proof (intro conjI)
  show "\<exists>es. createRemixHeaders requestHeaders = Headers es"
    by (simp add: createRemixHeaders_def)
  show "\<forall>key. property requestHeaders key = HUndefined \<longrightarrow>
      map_of (entries (createRemixHeaders requestHeaders)) key = None"
    by (simp add: lookup_createRemixHeaders)
  show "dom (map_of (entries (createRemixHeaders requestHeaders))) =
     {key. property requestHeaders key \<noteq> HUndefined}"
    by (auto simp: dom_def lookup_createRemixHeaders split: header_value.splits)
qed

theorem header_translation_drops_undefined_witness:
  "map_of (entries (createRemixHeaders (req_headers post_request))) ''x-gone'' = None \<and>
   createRemixHeaders (req_headers post_request) =
     Headers [(''host'', ''localhost''), (''x-foo'', ''a,b'')]"
  using header_translation_drops_undefined [of "req_headers post_request"]
  by (simp add: post_request_def createRemixHeaders_def Object_keys_def property_def)

section \<open>Request translation\<close>

text \<open>
  Claim C2. A standardized request built by \<^verbatim>\<open>createRemixRequest\<close> has no body when
  the method is \<^verbatim>\<open>GET\<close> or \<^verbatim>\<open>HEAD\<close>, whatever the native payload, and for every
  other method has a body: the pass-through stream fed by the native request, which
  yields the bytes of the native payload.
\<close>

theorem bodyless_verbs_have_no_body:
  "createRemixRequest URL req = Inr r \<Longrightarrow>
   (req_method req = ''GET'' \<or> req_method req = ''HEAD'' \<longrightarrow> request_body r = None) \<and>
   (req_method req \<noteq> ''GET'' \<and> req_method req \<noteq> ''HEAD'' \<longrightarrow>
      request_body r = Some (PassThrough 16384 (req_payload req)) \<and>
      (\<exists>stream. request_body r = Some stream \<and> bytes_of stream = bytes_of (req_payload req)))"
  by (auto simp: createRemixRequest_def Request_def Let_def bytes_of_def split: sum.splits)

theorem bodyless_verbs_have_no_body_witness:
  "(\<exists>r. createRemixRequest resolve_path get_request = Inr r \<and> request_body r = None) \<and>
   (\<exists>r. createRemixRequest resolve_path post_request = Inr r \<and>
        request_body r = Some (PassThrough 16384 (Chunks [[1, 2], [3]])))"
  using bodyless_verbs_have_no_body [of resolve_path get_request]
    bodyless_verbs_have_no_body [of resolve_path post_request]
  by (simp add: createRemixRequest_def resolve_path_def get_request_def post_request_def
      Request_def)

text \<open>
  Claim C3. The URL of the standardized request is what the URL primitive returns for
  the native request's path resolved against \<^verbatim>\<open>protocol://hostname\<close>; the method and
  the translated headers go with it. A \<^verbatim>\<open>GET\<close> for \<^verbatim>\<open>/foo?x=1\<close> on host
  \<^verbatim>\<open>example.com\<close> over \<^verbatim>\<open>https\<close> gets \<^verbatim>\<open>https://example.com/foo?x=1\<close>.
\<close>

theorem request_url_resolved_against_origin:
  "URL (req_url req) (req_protocol req @ ''://'' @ req_hostname req) = Inr href \<Longrightarrow>
   \<exists>r. createRemixRequest URL req = Inr r \<and> request_url r = href \<and>
       request_method r = req_method req \<and>
       request_headers r = createRemixHeaders (req_headers req)"
  by (simp add: createRemixRequest_def Request_def Let_def)

theorem request_url_resolved_against_origin_witness:
  "\<exists>r. createRemixRequest resolve_path get_request = Inr r \<and>
       request_url r = ''https://example.com/foo?x=1'' \<and> request_body r = None"
  using request_url_resolved_against_origin
    [of resolve_path get_request "''https://example.com/foo?x=1''"]
  by (simp add: createRemixRequest_def resolve_path_def get_request_def Request_def)

section \<open>Response emission\<close>

text \<open>
  Claim C4. On any native response, when the status call and then the header calls
  return, \<^verbatim>\<open>sendRemixResponse\<close> with a buffered body is the call of
  \<^verbatim>\<open>res.end\<close> with that buffer, made in the state those calls leave: status first,
  then every header entry in order, then the body. On an Express response it leaves, for
  every standardized response, the status set to the standardized status and every
  header entry copied, a later entry of a name overwriting an earlier one (a name with no
  entry keeps what the native response had); with a buffered body it returns normally
  with exactly the bytes of the buffer written and the response closed. An empty buffer
  with status 404 gives a 404 reply with a body of length zero.
\<close>

theorem buffered_response_emitted:
  fixes res :: "('s, 'x) express_Response" and response :: response
    and s :: 's and n :: native_response
  defines "outcome \<equiv>
    sendRemixResponse (express_res :: (native_response, 'y) express_Response) response n"
  shows "(\<forall>s1 s2 buffer. res_status res (response_status response) s = (Inr (), s1) \<and>
            set_headers res (entries (response_headers response)) s1 = (Inr (), s2) \<and>
            response_body response = BufferBody buffer \<longrightarrow>
            sendRemixResponse res response s = res_end res buffer s2) \<and>
     statusCode (snd outcome) = response_status response \<and>
     (\<forall>key. map_of (header_table (snd outcome)) key =
        (case map_of (rev (entries (response_headers response))) key of
           None \<Rightarrow> map_of (header_table n) key
         | Some v \<Rightarrow> Some v)) \<and>
     (\<forall>buffer. response_body response = BufferBody buffer \<longrightarrow>
        fst outcome = Inr () \<and> written (snd outcome) = written n @ buffer \<and>
        finished (snd outcome))"
proof (intro conjI)
  show "\<forall>s1 s2 buffer. res_status res (response_status response) s = (Inr (), s1) \<and>
            set_headers res (entries (response_headers response)) s1 = (Inr (), s2) \<and>
            response_body response = BufferBody buffer \<longrightarrow>
            sendRemixResponse res response s = res_end res buffer s2"
    by (simp add: sendRemixResponse_def)
qed (cases "response_body response";
     simp add: outcome_def sendRemixResponse_def set_headers_express map_of_fold_obj_set
        express_res_simps)+

theorem buffered_response_emitted_witness:
  "sendRemixResponse express_res not_found fresh_response =
     (Inr (), \<lparr>statusCode = 404, header_table = [], written = [], finished = True\<rparr>) \<and>
   sendRemixResponse closing_res greeting fresh_response =
     (Inr (), \<lparr>statusCode = 200, header_table = [(''x-a'', ''3''), (''x-b'', ''2'')],
               written = [104, 105], finished = True\<rparr>)"
  using buffered_response_emitted [of express_res not_found fresh_response fresh_response]
    buffered_response_emitted [of closing_res greeting fresh_response fresh_response]
  by (simp add: not_found_def greeting_def fresh_response_def sendRemixResponse_def
      express_res_simps closing_res_def)

text \<open>
  Claim C9. \<^verbatim>\<open>sendRemixResponse\<close> needs a body that is a buffer or a stream. For a
  response whose body is \<^verbatim>\<open>null\<close>, on any native response whose status and header
  calls return, emission fails with the \<^verbatim>\<open>TypeError\<close> of piping the missing body,
  and it fails after the status and the headers have been set: the state it leaves is
  the one after those calls.
\<close>

theorem null_body_fails_after_status_and_headers:
  "response_body response = NullBody \<Longrightarrow>
   res_status res (response_status response) s = (Inr (), s1) \<Longrightarrow>
   set_headers res (entries (response_headers response)) s1 = (Inr (), s2) \<Longrightarrow>
   sendRemixResponse res response s = (Inl TypeError, s2)"
  by (simp add: sendRemixResponse_def)

theorem null_body_fails_after_status_and_headers_witness:
  "sendRemixResponse express_res no_body fresh_response =
     (Inl TypeError,
      \<lparr>statusCode = 204, header_table = [(''x-a'', ''1'')], written = [], finished = False\<rparr>)"
  using null_body_fails_after_status_and_headers
    [of no_body express_res fresh_response "fresh_response\<lparr>statusCode := 204\<rparr>"
      "fresh_response\<lparr>statusCode := 204, header_table := [(''x-a'', ''1'')]\<rparr>"]
  by (simp add: no_body_def fresh_response_def express_res_simps)

section \<open>The middleware\<close>

text \<open>
  Claim C1. Whatever fails in an invocation of the middleware, be it the request
  translation, the load context function, the framework handler (by throwing or by
  rejecting its promise) or the emission of the response, the middleware calls the
  \<^verbatim>\<open>next\<close> it was given once, with the very value that was thrown: the native
  response ends in the state \<open>next\<close> makes of the state \<open>sf\<close> the failure left. No
  response is sent, and the middleware's own promise resolves.
\<close>

theorem next_receives_every_failure:
  fixes F :: "'b \<Rightarrow> string option \<Rightarrow> bool \<Rightarrow> ('x, 'c) handleRequest"
    and opts :: "('b, 's, 'x, 'c) options"
    and env URL req res s "next"
  defines "h \<equiv> F (build opts) (mode_of env opts) (serverTiming_of env opts)"
    and "r \<equiv> createRequestHandler F env URL opts req res s next"
  assumes "(createRemixRequest URL req = Inl error \<and> sf = s)
    \<or> (\<exists>request. createRemixRequest URL req = Inr request \<and>
          loadContext_of (getLoadContext opts) req s = (Inl error, sf))
    \<or> (\<exists>request loadContext. createRemixRequest URL req = Inr request \<and>
          loadContext_of (getLoadContext opts) req s = (Inr loadContext, sf) \<and>
          (h request loadContext = Inl error \<or> h request loadContext = Inr (Rejected error)))
    \<or> (\<exists>request loadContext s1 response. createRemixRequest URL req = Inr request \<and>
          loadContext_of (getLoadContext opts) req s = (Inr loadContext, s1) \<and>
          h request loadContext = Inr (Fulfilled response) \<and>
          sendRemixResponse res response s1 = (Inl error, sf))"
  shows "next_calls (events r) = [error] \<and> native r = next error sf \<and>
         settled r = Resolved \<and> Response_sent \<notin> set (events r)"
  using assms(3) unfolding h_def r_def
  by (auto simp: createRequestHandler_def middleware_def try_catch_def try_block_def)

theorem next_receives_every_failure_witness:
  "native (createRequestHandler (serves not_found) no_env malformed_url
      (with_context JUndefined) get_request express_res fresh_response error_page) =
     \<lparr>statusCode = 500, header_table = [], written = [], finished = True\<rparr> \<and>
   next_calls (events (createRequestHandler (serves not_found) no_env malformed_url
      (with_context JUndefined) get_request express_res fresh_response error_page)) =
     [External 1] \<and>
   next_calls (events (createRequestHandler (serves not_found) no_env resolve_path
      (with_context (JFunction failing_context)) get_request express_res fresh_response
      error_page)) = [External 5] \<and>
   next_calls (events (createRequestHandler throws no_env resolve_path
      (with_context JUndefined) get_request express_res fresh_response error_page)) =
     [External 7] \<and>
   next_calls (events (createRequestHandler rejects no_env resolve_path
      (with_context JUndefined) get_request express_res fresh_response error_page)) =
     [External 8] \<and>
   next_calls (events (createRequestHandler (serves no_body) no_env resolve_path
      (with_context JUndefined) get_request express_res fresh_response error_page)) =
     [TypeError] \<and>
   native (createRequestHandler (serves no_body) no_env resolve_path
      (with_context JUndefined) get_request express_res fresh_response error_page) =
     \<lparr>statusCode = 500, header_table = [(''x-a'', ''1'')], written = [], finished = True\<rparr> \<and>
   settled (createRequestHandler (serves no_body) no_env resolve_path
      (with_context JUndefined) get_request express_res fresh_response error_page) = Resolved"
  using
    next_receives_every_failure [of malformed_url get_request "External 1" fresh_response fresh_response
      "with_context JUndefined" "serves not_found" no_env express_res error_page]
    next_receives_every_failure [of resolve_path get_request "External 5" fresh_response fresh_response
      "with_context (JFunction failing_context)" "serves not_found" no_env
      express_res error_page]
    next_receives_every_failure [of resolve_path get_request "External 7" fresh_response fresh_response
      "with_context JUndefined" throws no_env express_res error_page]
    next_receives_every_failure [of resolve_path get_request "External 8" fresh_response fresh_response
      "with_context JUndefined" rejects no_env express_res error_page]
    next_receives_every_failure [of resolve_path get_request TypeError
      "fresh_response\<lparr>statusCode := 204, header_table := [(''x-a'', ''1'')]\<rparr>" fresh_response
      "with_context JUndefined" "serves no_body" no_env express_res error_page]
  by (simp add: run_defs sendRemixResponse_def express_res_simps malformed_url_def
      failing_context_def serves_def throws_def rejects_def
      no_body_def fresh_response_def error_page_def)




text \<open>
  Claim C10. Once the request is translated, a \<^verbatim>\<open>getLoadContext\<close> option that is
  not a function is ignored without an error: the handler is called with the load context
  \<^verbatim>\<open>undefined\<close>, and the invocation is the one of the middleware built without the
  option. When the option is a function that returns, the handler is called with the
  context it returns for the native request and response; and the handler gets a context
  other than \<^verbatim>\<open>undefined\<close> only when the option is a function.
\<close>

theorem non_function_getLoadContext_ignored:
  fixes F :: "'b \<Rightarrow> string option \<Rightarrow> bool \<Rightarrow> ('x, 'c) handleRequest"
    and opts :: "('b, 's, 'x, 'c) options"
    and env URL req res s "next"
  defines "r \<equiv> createRequestHandler F env URL opts req res s next"
  assumes "createRemixRequest URL req = Inr request"
  shows "(typeof (getLoadContext opts) \<noteq> ''function'' \<longrightarrow>
            handler_calls (events r) = [(request, None)] \<and>
            r = createRequestHandler F env URL (opts\<lparr>getLoadContext := JUndefined\<rparr>)
                  req res s next)
       \<and> (\<forall>f loadContext s1.
            getLoadContext opts = JFunction f \<and> f req s = (Inr loadContext, s1) \<longrightarrow>
            handler_calls (events r) = [(request, loadContext)])
       \<and> (\<forall>loadContext. (request, Some loadContext) \<in> set (handler_calls (events r)) \<longrightarrow>
            typeof (getLoadContext opts) = ''function'')"
  using assms(2) unfolding r_def
  by (auto simp: createRequestHandler_def middleware_def try_catch_def try_block_def
      loadContext_of_def mode_of_def serverTiming_of_def
      split: sum.splits prod.splits completion.splits)

theorem non_function_getLoadContext_ignored_witness:
  "handler_calls (events (createRequestHandler (serves not_found) no_env resolve_path
      (with_context (JString ''session'')) get_request express_res fresh_response server_next)) =
     [(Request ''https://example.com/foo?x=1''
         \<lparr>init_method = ''GET'', init_headers = Headers [(''host'', ''example.com'')],
          init_body = None\<rparr>, None)] \<and>
   next_calls (events (createRequestHandler (serves not_found) no_env resolve_path
      (with_context (JString ''session'')) get_request express_res fresh_response server_next)) =
     [] \<and>
   handler_calls (events (createRequestHandler (serves not_found) no_env resolve_path
      (with_context (JFunction session_context)) get_request express_res fresh_response
      server_next)) =
     [(Request ''https://example.com/foo?x=1''
         \<lparr>init_method = ''GET'', init_headers = Headers [(''host'', ''example.com'')],
          init_body = None\<rparr>, Some 42)]"
  using
    non_function_getLoadContext_ignored [of resolve_path get_request
      "Request ''https://example.com/foo?x=1''
         \<lparr>init_method = ''GET'', init_headers = Headers [(''host'', ''example.com'')],
          init_body = None\<rparr>"
      "with_context (JString ''session'')" "serves not_found" no_env express_res fresh_response
      server_next]
    non_function_getLoadContext_ignored [of resolve_path get_request
      "Request ''https://example.com/foo?x=1''
         \<lparr>init_method = ''GET'', init_headers = Headers [(''host'', ''example.com'')],
          init_body = None\<rparr>"
      "with_context (JFunction session_context)" "serves not_found" no_env express_res
      fresh_response server_next]
  by (simp add: run_defs get_request_def createRemixHeaders_def Object_keys_def property_def
      session_context_def serves_def not_found_def sendRemixResponse_def express_res_simps)

end
